theory Spec2Isabelle
  imports Main "HOL-Library.Word"
begin

section \<open>Values shared by the shard server and the protocol handlers\<close>

text \<open>
  A \<open>Buffer\<close> is a list of bytes. An error is either an \<open>Error\<close> object that the code under
  study creates itself (\<open>new Error(msg)\<close>, a failed \<open>assert\<close>), or an error object that a
  collaborator (contract store, shard store, transport, offer stream) hands to a callback
  and that the code passes on unchanged.
\<close>

type_synonym bytes = "8 word list"

datatype error = Error string | Upstream string

text \<open>
  A contact is the pair \<open>[identity, info]\<close>; of the address information the code under
  study reads \<open>xpub\<close> and \<open>index\<close>.
\<close>

record info =
  xpub :: string
  index :: nat

type_synonym contact = "string \<times> info"

section \<open>lib/utils.js: hashing\<close>

text \<open>
  \<open>crypto.createHash\<close> is Node's; the two digests are parameters of the model.
  \<open>toString('hex')\<close> is written out.
\<close>

record crypto =
  createHash_sha256 :: "bytes \<Rightarrow> bytes"
  createHash_rmd160 :: "bytes \<Rightarrow> bytes"

definition sha256 :: "crypto \<Rightarrow> bytes \<Rightarrow> bytes" where
  "sha256 C input = createHash_sha256 C input"

definition rmd160 :: "crypto \<Rightarrow> bytes \<Rightarrow> bytes" where
  "rmd160 C input = createHash_rmd160 C input"

definition rmd160sha256 :: "crypto \<Rightarrow> bytes \<Rightarrow> bytes" where
  "rmd160sha256 C input = rmd160 C (sha256 C input)"

definition hexdigit :: "nat \<Rightarrow> char" where
  "hexdigit n = ''0123456789abcdef'' ! (n mod 16)"

definition toString_hex :: "bytes \<Rightarrow> string" where
  "toString_hex bs = concat (map (\<lambda>b. [hexdigit (unat b div 16), hexdigit (unat b mod 16)]) bs)"

section \<open>The shard server (class Server)\<close>

subsection \<open>Token table\<close>

record token_entry =
  hash :: string
  contact :: contact
  expires :: int

text \<open>
  \<open>shardHash\<close>/\<open>shardSize\<close> are the fields of the \<open>ShardContract\<close> document that
  \<open>upload\<close> reads from \<open>this.database\<close>.
\<close>

record shard_contract =
  shardHash :: string
  shardSize :: nat

text \<open>
  The server object: \<open>_allowed\<close> (a \<open>Map\<close> from token to entry) and \<open>_ttl\<close>. The database
  adapter (\<open>options.database\<close>) and the shard store are collaborators that the server is
  given; what their callbacks deliver is given by
  \<open>findOne\<close> (the message of an error, no document, or a document), \<open>createWriteStream\<close>
  (the message of an error, or a stream) and \<open>createReadStream\<close> (the message of an error,
  or a stream that ends after its bytes or emits \<open>error\<close> on the way).
\<close>

datatype read_stream = Ends bytes | Breaks bytes

record server =
  allowed :: "string \<rightharpoonup> token_entry"
  ttl :: int
  findOne :: "string \<Rightarrow> string + shard_contract option"
  createWriteStream :: "string \<Rightarrow> string option"
  createReadStream :: "string \<Rightarrow> string + read_stream"

definition accept :: "int \<Rightarrow> string \<Rightarrow> string \<Rightarrow> contact \<Rightarrow> server \<Rightarrow> server" where
  "accept now token filehash c srv =
     srv\<lparr>allowed := (allowed srv)(token \<mapsto> \<lparr>hash = filehash, contact = c, expires = now + ttl srv\<rparr>)\<rparr>"

definition reject :: "string \<Rightarrow> server \<Rightarrow> server" where
  "reject token srv = srv\<lparr>allowed := (allowed srv)(token := None)\<rparr>"

text \<open>
  \<open>authorize\<close>: five assertions in the order of the source. The token comes from the query
  string and may be missing (\<open>None\<close>); \<open>assert.ok\<close> also refuses the empty string.
\<close>

definition authorize :: "server \<Rightarrow> int \<Rightarrow> string option \<Rightarrow> string \<Rightarrow> error + token_entry" where
  "authorize srv now token h =
     (case token of
        None \<Rightarrow> Inl (Error ''You did not supply a token'')
      | Some t \<Rightarrow>
          if t = [] then Inl (Error ''You did not supply a token'')
          else (case allowed srv t of
                  None \<Rightarrow> Inl (Error ''The token is not accepted'')
                | Some e \<Rightarrow>
                    if h = [] then Inl (Error ''You did not supply the data hash'')
                    else if \<not> (expires e > now) then Inl (Error ''Token expired'')
                    else if \<not> (hash e = h) then Inl (Error ''Token not valid'')
                    else Inr e))"

text \<open>\<open>_reapExpiredTokens\<close>: every entry with \<open>expires < now\<close> is rejected.\<close>

definition reapExpiredTokens :: "int \<Rightarrow> server \<Rightarrow> server" where
  "reapExpiredTokens now srv =
     srv\<lparr>allowed := (\<lambda>t. case allowed srv t of
                           None \<Rightarrow> None
                         | Some e \<Rightarrow> if expires e < now then None else Some e)\<rparr>"

subsection \<open>Upload\<close>

text \<open>
  A request: the \<open>token\<close> of the query string, the \<open>hash\<close> of the path, and the body as the
  chunks of its \<open>data\<close> events, followed by \<open>end\<close>.
\<close>

record request =
  query_token :: "string option"
  params_hash :: string
  body :: "bytes list"

text \<open>What the handler does to its surroundings, in order.\<close>

datatype event =
    Write bytes
  | Unlink string
  | WriteEnd
  | Emit_shardUploaded shard_contract
  | Emit_shardDownloaded string
  | Pipe bytes
  | ResEnd
  | Respond "error option" nat

text \<open>
  The state of one transfer: the byte counter of \<open>upload\<close>, the bytes fed to its hasher,
  the events so far, the response once \<open>respond\<close> has run, and the server.
\<close>

record transfer =
  receivedBytes :: nat
  hasher :: bytes
  events :: "event list"
  response :: "(error option \<times> nat) option"
  srv :: server

text \<open>
  \<open>respond\<close> is the final callback of \<open>async.waterfall\<close>, which the library runs for the
  first completion of a task only: \<open>next\<close> called again (an overflow followed by \<open>end\<close>)
  does not reach it.
\<close>

definition respond :: "error option \<Rightarrow> nat \<Rightarrow> transfer \<Rightarrow> transfer" where
  "respond err statusCode run =
     (if response run = None
      then run\<lparr>events := events run @ [Respond err statusCode], response := Some (err, statusCode)\<rparr>
      else run)"

definition on_data :: "string \<Rightarrow> nat \<Rightarrow> transfer \<Rightarrow> bytes \<Rightarrow> transfer" where
  "on_data h shard_size run chunk =
     (let run1 = run\<lparr>receivedBytes := receivedBytes run + length chunk,
                     hasher := hasher run @ chunk,
                     events := events run @ [Write chunk]\<rparr>
      in if receivedBytes run1 > shard_size
         then respond (Some (Error ''Shard exceeds size defined in contract'')) 400
                (run1\<lparr>events := events run1 @ [Unlink h]\<rparr>)
         else run1)"

definition on_end :: "crypto \<Rightarrow> string option \<Rightarrow> string \<Rightarrow> shard_contract \<Rightarrow> transfer \<Rightarrow> transfer" where
  "on_end C token h contract run =
     (if toString_hex (rmd160 C (sha256 C (hasher run))) \<noteq> h
      then respond (Some (Error ''Hash does not match contract'')) 400
             (run\<lparr>events := events run @ [Unlink h]\<rparr>)
      else respond None 200
             (run\<lparr>events := events run @ [WriteEnd, Emit_shardUploaded contract],
                  srv := (case token of None \<Rightarrow> srv run | Some t \<Rightarrow> reject t (srv run))\<rparr>))"

definition transfer_start :: "server \<Rightarrow> transfer" where
  "transfer_start s = \<lparr>receivedBytes = 0, hasher = [], events = [], response = None, srv = s\<rparr>"

text \<open>
  \<open>upload\<close>: the three tasks of the waterfall. \<open>hash\<close> is destructured from
  \<open>_allowed.get(token)\<close>, the entry that \<open>authorize\<close> returns.
\<close>

definition upload :: "crypto \<Rightarrow> int \<Rightarrow> server \<Rightarrow> request \<Rightarrow> transfer" where
  "upload C now s req =
     (case authorize s now (query_token req) (params_hash req) of
        Inl err \<Rightarrow> respond (Some err) 401 (transfer_start s)
      | Inr entry \<Rightarrow>
          (let h = hash entry in
           case findOne s h of
             Inl err \<Rightarrow> respond (Some (Upstream err)) 404 (transfer_start s)
           | Inr None \<Rightarrow> respond (Some (Error ''Not found'')) 404 (transfer_start s)
           | Inr (Some contract) \<Rightarrow>
               (case createWriteStream s h of
                  Some err \<Rightarrow> respond (Some (Upstream err)) 500 (transfer_start s)
                | None \<Rightarrow>
                    on_end C (query_token req) h contract
                      (foldl (on_data h (shardSize contract)) (transfer_start s) (body req)))))"

definition statusCode :: "transfer \<Rightarrow> nat option" where
  "statusCode run = map_option snd (response run)"

subsection \<open>Download\<close>

text \<open>
  \<open>download\<close>: authorize, open the read stream, pipe. The third task takes no \<open>next\<close>, so
  \<open>respond\<close> runs for the two failures only; a served download keeps the status the
  response object starts with. On \<open>end\<close> the token is rejected; on a stream error the
  response is ended and the token stays.
\<close>

definition download :: "int \<Rightarrow> server \<Rightarrow> request \<Rightarrow> transfer" where
  "download now s req =
     (case authorize s now (query_token req) (params_hash req) of
        Inl err \<Rightarrow> respond (Some err) 401 (transfer_start s)
      | Inr entry \<Rightarrow>
          (let h = hash entry in
           case createReadStream s h of
             Inl err \<Rightarrow> respond (Some (Upstream err)) 404 (transfer_start s)
           | Inr (Ends data) \<Rightarrow>
               (transfer_start s)\<lparr>events := [Pipe data, Emit_shardDownloaded h],
                                srv := (case query_token req of None \<Rightarrow> s | Some t \<Rightarrow> reject t s)\<rparr>
           | Inr (Breaks data) \<Rightarrow>
               (transfer_start s)\<lparr>events := [Pipe data, ResEnd]\<rparr>))"

subsection \<open>Reading the events of a transfer\<close>

text \<open>
  \<open>before_respond\<close> is what the handler did before it answered: the events up to the call
  of \<open>respond\<close>.
\<close>

definition is_Respond :: "event \<Rightarrow> bool" where
  "is_Respond ev = (case ev of Respond err code \<Rightarrow> True | _ \<Rightarrow> False)"

definition before_respond :: "event list \<Rightarrow> event list" where
  "before_respond evs = takeWhile (\<lambda>ev. \<not> is_Respond ev) evs"

section \<open>Contracts\<close>

text \<open>
  Modelled from the spec: the Contract value object (\<open>lib/contract.js\<close> is not among the
  sources). A descriptor has the fields of the data model, with their types; \<open>get\<close> and
  \<open>set\<close> of a field are the selector and the update of the record. A signature that is
  not populated is \<open>None\<close>.
\<close>

record contract =
  data_hash :: string
  data_size :: nat
  renter_id :: string
  farmer_id :: string
  renter_hd_key :: string
  farmer_hd_key :: string
  renter_hd_index :: nat
  farmer_hd_index :: nat
  renter_signature :: "string option"
  farmer_signature :: "string option"
  store_begin :: int
  store_end :: int
  audit_leaves :: "string list"
  payment_destination :: string
  version :: nat

text \<open>
  What travels in RPC parameters and replies and what the contract store holds: a
  descriptor object, a string, an array, or nothing (\<open>undefined\<close>).
\<close>

datatype jsval = Descriptor contract | Str string | Array "jsval list" | Undefined

datatype role = Renter | Farmer

datatype compact_proof = Leaf string | Branch "compact_proof list"

text \<open>
  The operations of \<open>Contract\<close> and \<open>ProofStream\<close> (\<open>lib/proof.js\<close>, not among the sources
  either) that the handlers call are parameters of the model: \<open>Contract.from\<close>,
  \<open>isValid\<close>, \<open>isComplete\<close>, \<open>sign\<close>, \<open>Contract.diff\<close> (the differing field names, in
  the order in which the handler iterates over them), and the result of a proof stream
  built from audit leaves and a challenge and fed the bytes of a shard: the proof on
  \<open>finish\<close>, \<open>None\<close> on \<open>error\<close>.
\<close>

record lib =
  Contract_from :: "jsval \<Rightarrow> contract"
  isValid :: "contract \<Rightarrow> bool"
  isComplete :: "contract \<Rightarrow> bool"
  sign :: "role \<Rightarrow> string \<Rightarrow> contract \<Rightarrow> contract"
  diff :: "contract \<Rightarrow> contract \<Rightarrow> string list"
  ProofStream :: "string list \<Rightarrow> string \<Rightarrow> bytes \<Rightarrow> compact_proof option"

definition toObject :: "contract \<Rightarrow> jsval" where
  "toObject c = Descriptor c"

section \<open>The node and its collaborators\<close>

text \<open>
  The contract store: \<open>get\<close> of a key that is not there calls back with an error; \<open>put\<close>
  either stores the value or calls back with an error (\<open>put_fault\<close> gives its message).
\<close>

record kvstore =
  entries :: "string \<rightharpoonup> jsval"
  put_fault :: "string \<Rightarrow> string option"

definition store_get :: "kvstore \<Rightarrow> string \<Rightarrow> error + jsval" where
  "store_get st key = (case entries st key of None \<Rightarrow> Inl (Upstream ''Not found'') | Some v \<Rightarrow> Inr v)"

definition store_put :: "kvstore \<Rightarrow> string \<Rightarrow> jsval \<Rightarrow> error + kvstore" where
  "store_put st key v =
     (case put_fault st key of
        Some msg \<Rightarrow> Inl (Upstream msg)
      | None \<Rightarrow> Inr (st\<lparr>entries := (entries st)(key \<mapsto> v)\<rparr>))"

text \<open>
  The shard store as the handlers use it: \<open>exists\<close> calls back with the message of an
  error or a boolean, \<open>createReadStream\<close> with the message of an error or a stream, which
  ends after its bytes or emits \<open>error\<close> on the way.
\<close>

record shards =
  shard_exists :: "string \<Rightarrow> string + bool"
  shard_stream :: "string \<Rightarrow> string + read_stream"

text \<open>
  Modelled from the spec: an OfferStream (\<open>lib/offers.js\<close> is not among the sources) holds
  the offers queued on it, each with the contact that made it.
\<close>

record offer_stream =
  queued :: "(contact \<times> contract) list"

definition queue :: "contact \<Rightarrow> contract \<Rightarrow> offer_stream \<Rightarrow> offer_stream" where
  "queue c offered os = os\<lparr>queued := queued os @ [(c, offered)]\<rparr>"

record node =
  identity :: string
  self :: info
  privateKey :: string
  offers :: "string \<rightharpoonup> offer_stream"
  contracts :: kvstore
  node_shards :: shards
  server :: server
  claims :: "string list"

text \<open>
  A handler ends in \<open>next(err)\<close> or \<open>response.send(result)\<close>, or, for OFFER, hands the reply
  to the offer stream (\<open>Queued\<close>); \<open>NoReply\<close> is a handler that calls neither, because a
  callback it waits for is never run.
\<close>

datatype 'a outcome = Next error | Send 'a | Queued | NoReply

definition contract_key :: "string \<Rightarrow> string \<Rightarrow> string" where
  "contract_key h x = h @ '':'' @ x"

definition first_param :: "jsval list \<Rightarrow> jsval" where
  "first_param params = (case params of [] \<Rightarrow> Undefined | d # _ \<Rightarrow> d)"

section \<open>Protocol handlers (class Rules)\<close>

subsection \<open>OFFER\<close>

definition offer :: "lib \<Rightarrow> node \<Rightarrow> jsval list \<Rightarrow> contact \<Rightarrow> jsval list outcome \<times> node" where
  "offer L n params requester =
     (let contract = Contract_from L (first_param params);
          shardKey = data_hash contract;
          offerStream = offers n shardKey
      in if \<not> (isValid L contract \<and> isComplete L contract)
         then (Next (Error ''Invalid shard descriptor''), n)
         else (case offerStream of
                 None \<Rightarrow> (Next (Error ''Offers for descriptor are closed''), n)
               | Some os \<Rightarrow> (Queued, n\<lparr>offers := (offers n)(shardKey \<mapsto> queue requester contract os)\<rparr>)))"

text \<open>The resolver that \<open>offer\<close> queues with the contract: it sends the reply.\<close>

definition offer_resolver :: "error option \<Rightarrow> jsval \<Rightarrow> jsval list outcome" where
  "offer_resolver err result = (case err of Some e \<Rightarrow> Next e | None \<Rightarrow> Send [result])"

subsection \<open>AUDIT\<close>

record audit_item =
  item_hash :: string
  challenge :: string

record proof_item =
  proof_hash :: string
  item_proof :: "compact_proof option"

datatype audit_params = NotArray | Batch "audit_item list"

text \<open>
  One item of the batch. \<open>done\<close> is called from the callback of \<open>contracts.get\<close> on an
  error, from the callback of \<open>createReadStream\<close> on an error, and from the \<open>error\<close> and
  \<open>finish\<close> listeners of the proof stream. The shard stream is piped into the proof stream
  and has no listener of its own: when it ends, the proof stream is ended and reports
  \<open>finish\<close> or \<open>error\<close>; when it emits \<open>error\<close>, \<open>pipe\<close> does not end the proof stream, and
  \<open>done\<close> is not called (\<open>None\<close>).
\<close>

definition audit_one :: "lib \<Rightarrow> node \<Rightarrow> string \<Rightarrow> audit_item \<Rightarrow> proof_item option" where
  "audit_one L n x item =
     (let h = item_hash item in
      case store_get (contracts n) (contract_key h x) of
        Inl err \<Rightarrow> Some \<lparr>proof_hash = h, item_proof = None\<rparr>
      | Inr desc \<Rightarrow>
          (let contract = Contract_from L desc;
               auditLeaves = audit_leaves contract
           in case shard_stream (node_shards n) h of
                Inl err \<Rightarrow> Some \<lparr>proof_hash = h, item_proof = None\<rparr>
              | Inr (Ends data) \<Rightarrow>
                  (case ProofStream L auditLeaves (challenge item) data of
                     None \<Rightarrow> Some \<lparr>proof_hash = h, item_proof = None\<rparr>
                   | Some p \<Rightarrow> Some \<lparr>proof_hash = h, item_proof = Some p\<rparr>)
              | Inr (Breaks data) \<Rightarrow> None))"

text \<open>
  \<open>async.mapSeries\<close> runs the iteratee on the next item when \<open>done\<close> of the previous one is
  called, and the final callback after the last: an item whose \<open>done\<close> is never called
  stops the series, and the final callback is not run (\<open>None\<close>).
\<close>

fun mapSeries :: "('a \<Rightarrow> 'b option) \<Rightarrow> 'a list \<Rightarrow> 'b list option" where
  "mapSeries f [] = Some []"
| "mapSeries f (x # xs) =
     (case f x of
        None \<Rightarrow> None
      | Some y \<Rightarrow> (case mapSeries f xs of None \<Rightarrow> None | Some ys \<Rightarrow> Some (y # ys)))"

definition audit :: "lib \<Rightarrow> node \<Rightarrow> audit_params \<Rightarrow> contact \<Rightarrow> proof_item list outcome" where
  "audit L n params requester =
     (case params of
        NotArray \<Rightarrow> Next (Error ''Invalid audit batch supplied'')
      | Batch audits \<Rightarrow>
          (case mapSeries (audit_one L n (xpub (snd requester))) audits of
             None \<Rightarrow> NoReply
           | Some proofs \<Rightarrow> Send proofs))"

subsection \<open>CONSIGN and RETRIEVE\<close>

text \<open>
  \<open>token\<close> is the value of \<open>randomBytes(32).toString('hex')\<close> and \<open>now\<close> the value of
  \<open>Date.now()\<close> in this run of the handler.
\<close>

definition consign :: "lib \<Rightarrow> string \<Rightarrow> int \<Rightarrow> node \<Rightarrow> string \<Rightarrow> contact \<Rightarrow> jsval list outcome \<times> node" where
  "consign L token now n h requester =
     (case store_get (contracts n) (contract_key h (xpub (snd requester))) of
        Inl err \<Rightarrow> (Next err, n)
      | Inr desc \<Rightarrow>
          (let contract = Contract_from L desc
           in if now > store_end contract
              then (Next (Error ''Contract has expired''), n)
              else (Send [Str token], n\<lparr>server := accept now token h requester (server n)\<rparr>)))"

definition retrieve :: "string \<Rightarrow> int \<Rightarrow> node \<Rightarrow> string \<Rightarrow> contact \<Rightarrow> jsval list outcome \<times> node" where
  "retrieve token now n h requester =
     (case store_get (contracts n) (contract_key h (xpub (snd requester))) of
        Inl err \<Rightarrow> (Next err, n)
      | Inr desc \<Rightarrow>
          (case shard_exists (node_shards n) h of
             Inl err \<Rightarrow> (Next (Upstream err), n)
           | Inr ex \<Rightarrow>
               if \<not> ex then (Next (Error ''Shard not found''), n)
               else (Send [Str token], n\<lparr>server := accept now token h requester (server n)\<rparr>)))"

subsection \<open>RENEW\<close>

definition allowed_fields :: "string list" where
  "allowed_fields =
     [''renter_id'', ''renter_hd_key'', ''renter_signature'', ''store_begin'', ''store_end'',
      ''audit_leaves'']"

definition renew :: "lib \<Rightarrow> node \<Rightarrow> jsval list \<Rightarrow> contact \<Rightarrow> jsval list outcome \<times> node" where
  "renew L n params requester =
     (let renewal = Contract_from L (first_param params);
          h = data_hash renewal;
          key = contract_key h (xpub (snd requester))
      in if \<not> (isValid L renewal \<and> isComplete L renewal)
         then (Next (Error ''Descriptor is invalid or incomplete''), n)
         else (case store_get (contracts n) key of
                 Inl err \<Rightarrow> (Next err, n)
               | Inr desc \<Rightarrow>
                   (let original = Contract_from L desc;
                        difference = diff L original renewal
                    in case find (\<lambda>prop. prop \<notin> set allowed_fields) difference of
                         Some prop \<Rightarrow> (Next (Error (''Rejecting renewal of '' @ prop)), n)
                       | None \<Rightarrow>
                           (let countersigned = sign L Farmer (privateKey n) renewal
                            in case store_put (contracts n) key (toObject countersigned) of
                                 Inl err \<Rightarrow> (Next err, n)
                               | Inr st \<Rightarrow> (Send [toObject countersigned], n\<lparr>contracts := st\<rparr>)))))"

subsection \<open>CLAIM\<close>

definition claim :: "lib \<Rightarrow> string \<Rightarrow> int \<Rightarrow> node \<Rightarrow> jsval list \<Rightarrow> contact \<Rightarrow> jsval list outcome \<times> node" where
  "claim L token now n params requester =
     (let contract = Contract_from L (first_param params);
          x = renter_hd_key contract;
          h = data_hash contract
      in if x \<notin> set (claims n) \<and> ''*'' \<notin> set (claims n)
         then (Next (Error ''Currently rejecting claims''), n)
         else (let filled = sign L Farmer (privateKey n)
                              (contract\<lparr>payment_destination := ''?'',
                                        farmer_id := identity n,
                                        farmer_hd_key := xpub (self n),
                                        farmer_hd_index := index (self n)\<rparr>)
               in if \<not> (isValid L filled \<and> isComplete L filled)
                  then (Next (Error ''Invalid shard descriptor''), n)
                  else (case store_put (contracts n) (contract_key h x) (toObject filled) of
                          Inl err \<Rightarrow> (Next err, n)
                        | Inr st \<Rightarrow>
                            (Send [toObject filled, Str token],
                             n\<lparr>contracts := st, server := accept now token h requester (server n)\<rparr>))))"

section \<open>Client calls (class Node)\<close>

text \<open>
  \<open>send\<close> delivers the peer's answer to the callback: the message of an error, or the
  reply array. The callback of a client call receives an error or the contract.
\<close>

definition offerShardAllocation ::
  "lib \<Rightarrow> node \<Rightarrow> contact \<Rightarrow> string + jsval list \<Rightarrow> (error + contract) \<times> node" where
  "offerShardAllocation L n peer answer =
     (case answer of
        Inl err \<Rightarrow> (Inl (Upstream err), n)
      | Inr result \<Rightarrow>
          (let contract = Contract_from L (first_param result);
               h = data_hash contract;
               key = contract_key h (xpub (snd peer))
           in if \<not> (isValid L contract \<and> isComplete L contract)
              then (Inl (Error ''Peer replied with invalid or incomplete contract''), n)
              else (case store_put (contracts n) key (first_param result) of
                      Inl err \<Rightarrow> (Inl err, n)
                    | Inr st \<Rightarrow> (Inr contract, n\<lparr>contracts := st\<rparr>))))"

definition requestContractRenewal ::
  "lib \<Rightarrow> node \<Rightarrow> contact \<Rightarrow> string + jsval list \<Rightarrow> (error + contract) \<times> node" where
  "requestContractRenewal L n peer answer =
     (case answer of
        Inl err \<Rightarrow> (Inl (Upstream err), n)
      | Inr result \<Rightarrow>
          (let contract = Contract_from L (first_param result);
               h = data_hash contract;
               key = contract_key h (xpub (snd peer))
           in if \<not> (isValid L contract \<and> isComplete L contract)
              then (Inl (Error ''Peer replied with invalid or incomplete contract''), n)
              else (case store_put (contracts n) key (Array result) of
                      Inl err \<Rightarrow> (Inl err, n)
                    | Inr st \<Rightarrow> (Inr contract, n\<lparr>contracts := st\<rparr>))))"

text \<open>
  \<open>publishCapacityAnnouncement\<close>: the claims list is replaced before \<open>quasarPublish\<close> is
  called with the topic and the contents, which are returned here.
\<close>

record capacity =
  available :: int
  allocated :: int

definition publishCapacityAnnouncement ::
  "node \<Rightarrow> string \<Rightarrow> capacity \<Rightarrow> node \<times> string \<times> capacity \<times> contact" where
  "publishCapacityAnnouncement n descriptorCode data =
     (let contents = (data, (identity n, self n))
      in (n\<lparr>claims := (if available data > 0 then claims n else [])\<rparr>,
          ''0c'' @ descriptorCode, contents))"

section \<open>A sample instance\<close>

text \<open>
  An instance of the parameters on which the handlers can be run at concrete inputs.
  It follows the data model: a contract is complete when both signatures are populated;
  it is valid when its hash is not empty, its window is ordered and each populated
  signature verifies. Signatures are not cryptographic here: the signature made with
  a key is the key in brackets, and it verifies against the extended key equal to it.
  \<open>sample_diff\<close> lists the differing fields in a fixed order of the schema.
\<close>

definition blank :: contract where
  "blank = \<lparr>data_hash = [], data_size = 0, renter_id = [], farmer_id = [], renter_hd_key = [],
            farmer_hd_key = [], renter_hd_index = 0, farmer_hd_index = 0,
            renter_signature = None, farmer_signature = None, store_begin = 0, store_end = 0,
            audit_leaves = [], payment_destination = [], version = 0\<rparr>"

definition sample_from :: "jsval \<Rightarrow> contract" where
  "sample_from v = (case v of Descriptor c \<Rightarrow> c | _ \<Rightarrow> blank)"

definition sample_signature :: "string \<Rightarrow> string" where
  "sample_signature key = ''['' @ key @ '']''"

definition sample_isValid :: "contract \<Rightarrow> bool" where
  "sample_isValid c =
     (data_hash c \<noteq> [] \<and> store_begin c \<le> store_end c \<and>
      (case renter_signature c of None \<Rightarrow> True | Some sg \<Rightarrow> sg = sample_signature (renter_hd_key c)) \<and>
      (case farmer_signature c of None \<Rightarrow> True | Some sg \<Rightarrow> sg = sample_signature (farmer_hd_key c)))"

definition sample_isComplete :: "contract \<Rightarrow> bool" where
  "sample_isComplete c = (renter_signature c \<noteq> None \<and> farmer_signature c \<noteq> None)"

definition sample_sign :: "role \<Rightarrow> string \<Rightarrow> contract \<Rightarrow> contract" where
  "sample_sign r key c =
     (case r of
        Renter \<Rightarrow> c\<lparr>renter_signature := Some (sample_signature key)\<rparr>
      | Farmer \<Rightarrow> c\<lparr>farmer_signature := Some (sample_signature key)\<rparr>)"

definition sample_diff :: "contract \<Rightarrow> contract \<Rightarrow> string list" where
  "sample_diff a b =
     map fst (filter snd
       [(''version'', version a \<noteq> version b),
        (''renter_hd_key'', renter_hd_key a \<noteq> renter_hd_key b),
        (''renter_hd_index'', renter_hd_index a \<noteq> renter_hd_index b),
        (''renter_id'', renter_id a \<noteq> renter_id b),
        (''renter_signature'', renter_signature a \<noteq> renter_signature b),
        (''farmer_hd_key'', farmer_hd_key a \<noteq> farmer_hd_key b),
        (''farmer_hd_index'', farmer_hd_index a \<noteq> farmer_hd_index b),
        (''farmer_id'', farmer_id a \<noteq> farmer_id b),
        (''farmer_signature'', farmer_signature a \<noteq> farmer_signature b),
        (''data_size'', data_size a \<noteq> data_size b),
        (''data_hash'', data_hash a \<noteq> data_hash b),
        (''store_begin'', store_begin a \<noteq> store_begin b),
        (''store_end'', store_end a \<noteq> store_end b),
        (''audit_leaves'', audit_leaves a \<noteq> audit_leaves b),
        (''payment_destination'', payment_destination a \<noteq> payment_destination b)])"

definition sample_ProofStream :: "string list \<Rightarrow> string \<Rightarrow> bytes \<Rightarrow> compact_proof option" where
  "sample_ProofStream leaves ch data =
     (if ch \<in> set leaves \<and> data \<noteq> [] then Some (Branch [Leaf ch, Leaf (toString_hex data)]) else None)"

definition sample_lib :: lib where
  "sample_lib = \<lparr>Contract_from = sample_from, isValid = sample_isValid,
                 isComplete = sample_isComplete, sign = sample_sign, diff = sample_diff,
                 ProofStream = sample_ProofStream\<rparr>"

definition sample_crypto :: crypto where
  "sample_crypto = \<lparr>createHash_sha256 = (\<lambda>bs. bs), createHash_rmd160 = (\<lambda>bs. bs)\<rparr>"

text \<open>
  A renter \<open>R\<close>, a farmer \<open>F\<close> and a contract between them for the shard \<open>6869\<close>, the hex
  form of the two bytes \<open>hi\<close> under \<open>sample_crypto\<close>.
\<close>

definition renter :: contact where
  "renter = (''renter'', \<lparr>xpub = ''R'', index = 1\<rparr>)"

definition farmer :: contact where
  "farmer = (''farmer'', \<lparr>xpub = ''F'', index = 1\<rparr>)"

definition sample_contract :: contract where
  "sample_contract =
     \<lparr>data_hash = ''6869'', data_size = 2, renter_id = ''renter'', farmer_id = ''farmer'',
      renter_hd_key = ''R'', farmer_hd_key = ''F'', renter_hd_index = 1, farmer_hd_index = 1,
      renter_signature = Some ''[R]'', farmer_signature = Some ''[F]'',
      store_begin = 0, store_end = 1000, audit_leaves = [''c0'', ''c1''],
      payment_destination = ''addr'', version = 0\<rparr>"

definition sample_server :: server where
  "sample_server =
     \<lparr>allowed = Map.empty, ttl = 1800000,
      findOne = (\<lambda>h. if h = ''6869'' then Inr (Some \<lparr>shardHash = ''6869'', shardSize = 2\<rparr>) else Inr None),
      createWriteStream = (\<lambda>h. None),
      createReadStream = (\<lambda>h. if h = ''6869'' then Inr (Ends [0x68, 0x69]) else Inl ''no such shard'')\<rparr>"

definition sample_node :: node where
  "sample_node =
     \<lparr>identity = ''farmer'', self = \<lparr>xpub = ''F'', index = 1\<rparr>, privateKey = ''F'',
      offers = Map.empty,
      contracts = \<lparr>entries = [''6869:R'' \<mapsto> Descriptor sample_contract], put_fault = (\<lambda>k. None)\<rparr>,
      node_shards = \<lparr>shard_exists = (\<lambda>h. Inr (h = ''6869'')),
                     shard_stream = (\<lambda>h. if h = ''6869'' then Inr (Ends [0x68, 0x69]) else Inl ''no such shard'')\<rparr>,
      server = sample_server,
      claims = [''R'']\<rparr>"

section \<open>Properties\<close>

lemmas sample_defs =
  sample_lib_def sample_from_def sample_isValid_def sample_isComplete_def sample_sign_def
  sample_diff_def sample_ProofStream_def sample_signature_def sample_crypto_def
  sample_contract_def sample_server_def sample_node_def renter_def farmer_def blank_def
  contract_key_def first_param_def toObject_def store_get_def store_put_def

subsection \<open>AUDIT\<close>

lemma mapSeries_Some_iff: "mapSeries f xs = Some ys \<longleftrightarrow> map f xs = map Some ys"
proof (induction xs arbitrary: ys)
  case Nil
  then show ?case by auto
next
  case (Cons x xs)
  show ?case
  proof (cases ys)
    case Nil
    then show ?thesis by (simp split: option.splits)
  next
    case (Cons b bs)
    have "mapSeries f xs = Some bs \<longleftrightarrow> map f xs = map Some bs"
      by (rule Cons.IH)
    with Cons show ?thesis
      by (cases "f x"; cases "mapSeries f xs") auto
  qed
qed

lemma mapSeries_None_iff: "mapSeries f xs = None \<longleftrightarrow> (\<exists>x \<in> set xs. f x = None)"
  by (induction xs) (auto split: option.splits)

lemma audit_one_Some:
  assumes "\<forall>data. shard_stream (node_shards n) (item_hash item) \<noteq> Inr (Breaks data)"
  shows "\<exists>p. audit_one L n x item = Some p
           \<and> proof_hash p = item_hash item
           \<and> item_proof p =
               (case store_get (contracts n) (contract_key (item_hash item) x) of
                  Inl err \<Rightarrow> None
                | Inr desc \<Rightarrow>
                    (case shard_stream (node_shards n) (item_hash item) of
                       Inl err \<Rightarrow> None
                     | Inr (Ends data) \<Rightarrow>
                         ProofStream L (audit_leaves (Contract_from L desc)) (challenge item) data
                     | Inr (Breaks data) \<Rightarrow> None))"
  using assms
  by (auto simp: audit_one_def Let_def split: sum.splits option.splits read_stream.splits)

lemma audit_one_None:
  "audit_one L n x item = None \<longleftrightarrow>
     (\<exists>desc data. store_get (contracts n) (contract_key (item_hash item) x) = Inr desc
                \<and> shard_stream (node_shards n) (item_hash item) = Inr (Breaks data))"
  by (auto simp: audit_one_def Let_def split: sum.splits option.splits read_stream.splits)

text \<open>
  When no shard stream of the batch breaks, the handler replies with one item for each
  item of the batch, in order: the hash of the item, and a null proof when the contract
  cannot be loaded, the shard stream cannot be opened or the proof stream reports an
  error, the result of the proof stream otherwise.
\<close>

lemma audit_replies_when_streams_end:
  assumes "\<forall>item \<in> set items. \<forall>data. shard_stream (node_shards n) (item_hash item) \<noteq> Inr (Breaks data)"
  shows "\<exists>reply. audit L n (Batch items) requester = Send reply
     \<and> length reply = length items
     \<and> (\<forall>i < length items.
           proof_hash (reply ! i) = item_hash (items ! i)
         \<and> item_proof (reply ! i) =
             (case store_get (contracts n) (contract_key (item_hash (items ! i)) (xpub (snd requester))) of
                Inl err \<Rightarrow> None
              | Inr desc \<Rightarrow>
                  (case shard_stream (node_shards n) (item_hash (items ! i)) of
                     Inl err \<Rightarrow> None
                   | Inr (Ends data) \<Rightarrow>
                       ProofStream L (audit_leaves (Contract_from L desc)) (challenge (items ! i)) data
                   | Inr (Breaks data) \<Rightarrow> None)))"
proof -
  let ?f = "audit_one L n (xpub (snd requester))"
  from assms have "\<forall>x \<in> set items. ?f x \<noteq> None"
    by (auto simp: audit_one_None)
  then have "mapSeries ?f items \<noteq> None"
    by (simp add: mapSeries_None_iff)
  then obtain reply where r: "mapSeries ?f items = Some reply"
    by auto
  then have m: "map ?f items = map Some reply"
    by (simp add: mapSeries_Some_iff)
  then have len: "length reply = length items"
    by (metis length_map)
  have each: "?f (items ! i) = Some (reply ! i)" if "i < length items" for i
  proof -
    from that len have "map ?f items ! i = map Some reply ! i"
      using m by simp
    with that len show ?thesis by simp
  qed
  have "proof_hash (reply ! i) = item_hash (items ! i)
         \<and> item_proof (reply ! i) =
             (case store_get (contracts n) (contract_key (item_hash (items ! i)) (xpub (snd requester))) of
                Inl err \<Rightarrow> None
              | Inr desc \<Rightarrow>
                  (case shard_stream (node_shards n) (item_hash (items ! i)) of
                     Inl err \<Rightarrow> None
                   | Inr (Ends data) \<Rightarrow>
                       ProofStream L (audit_leaves (Contract_from L desc)) (challenge (items ! i)) data
                   | Inr (Breaks data) \<Rightarrow> None))"
    if "i < length items" for i
  proof -
    from that assms have "\<forall>data. shard_stream (node_shards n) (item_hash (items ! i)) \<noteq> Inr (Breaks data)"
      by simp
    from audit_one_Some [OF this, of L "xpub (snd requester)"] each [OF that]
    show ?thesis by auto
  qed
  with r len show ?thesis
    by (simp add: audit_def)
qed

text \<open>A batch with one item whose contract exists and whose shard stream breaks gets no reply.\<close>

lemma audit_no_reply:
  assumes "item \<in> set items"
    and "store_get (contracts n) (contract_key (item_hash item) (xpub (snd requester))) = Inr desc"
    and "shard_stream (node_shards n) (item_hash item) = Inr (Breaks data)"
  shows "audit L n (Batch items) requester = NoReply"
proof -
  from assms(2,3) have "audit_one L n (xpub (snd requester)) item = None"
    by (auto simp: audit_one_None)
  with assms(1) have "mapSeries (audit_one L n (xpub (snd requester))) items = None"
    by (auto simp: mapSeries_None_iff)
  then show ?thesis by (simp add: audit_def)
qed

text \<open>
  C2. AUDIT is specified to be total: a batch of \<open>N\<close> items is answered by \<open>N\<close> items in
  order, with a null proof for an item whose shard cannot be read. Run on a batch with an
  item whose contract exists and whose shard stream opens and then emits \<open>error\<close>, the
  handler sends nothing, neither for that item nor for the items around it: the shard
  stream has no \<open>error\<close> listener, so \<open>done\<close> is never called. On a node whose shard
  streams end, a batch is answered item by item, with null proofs where the contract is
  missing or the proof fails.
\<close>

theorem audit_broken_stream_no_reply:
  "store_get (contracts (sample_node\<lparr>node_shards := (node_shards sample_node)\<lparr>shard_stream := (\<lambda>h. Inr (Breaks [0x68]))\<rparr>\<rparr>))
      (contract_key ''6869'' (xpub (snd renter))) = Inr (Descriptor sample_contract)
   \<and> audit sample_lib (sample_node\<lparr>node_shards := (node_shards sample_node)\<lparr>shard_stream := (\<lambda>h. Inr (Breaks [0x68]))\<rparr>\<rparr>)
        (Batch [\<lparr>item_hash = ''6869'', challenge = ''c0''\<rparr>]) renter = NoReply
   \<and> audit sample_lib (sample_node\<lparr>node_shards := (node_shards sample_node)\<lparr>shard_stream := (\<lambda>h. Inr (Breaks [0x68]))\<rparr>\<rparr>)
        (Batch [\<lparr>item_hash = ''dead'', challenge = ''c0''\<rparr>, \<lparr>item_hash = ''6869'', challenge = ''c0''\<rparr>,
                \<lparr>item_hash = ''dead'', challenge = ''c1''\<rparr>]) renter = NoReply
   \<and> audit sample_lib sample_node
        (Batch [\<lparr>item_hash = ''6869'', challenge = ''c0''\<rparr>, \<lparr>item_hash = ''dead'', challenge = ''c0''\<rparr>,
                \<lparr>item_hash = ''6869'', challenge = ''zz''\<rparr>]) renter
       = Send [\<lparr>proof_hash = ''6869'', item_proof = Some (Branch [Leaf ''c0'', Leaf ''6869''])\<rparr>,
               \<lparr>proof_hash = ''dead'', item_proof = None\<rparr>,
               \<lparr>proof_hash = ''6869'', item_proof = None\<rparr>]"
  by (simp add: audit_def audit_one_def Let_def sample_defs toString_hex_def hexdigit_def)

subsection \<open>CONSIGN\<close>

text \<open>
  C5. For a CONSIGN request for hash \<open>H\<close> from a contact with extended key \<open>X\<close>, when the
  contract under \<open>H:X\<close> exists: the handler fails with \<open>Contract has expired\<close> exactly when
  \<open>now > store_end\<close>; then the node, and with it the token table, is unchanged; otherwise
  it replies with the minted token, and the token table holds that token for \<open>H\<close> and the
  contact.
\<close>

theorem consign_expired:
  assumes "store_get (contracts n) (contract_key h (xpub (snd requester))) = Inr desc"
  shows "(fst (consign L token now n h requester) = Next (Error ''Contract has expired'')
            \<longleftrightarrow> now > store_end (Contract_from L desc))
       \<and> (now > store_end (Contract_from L desc)
            \<longrightarrow> snd (consign L token now n h requester) = n)
       \<and> (\<not> now > store_end (Contract_from L desc)
            \<longrightarrow> fst (consign L token now n h requester) = Send [Str token]
              \<and> snd (consign L token now n h requester) = n\<lparr>server := accept now token h requester (server n)\<rparr>
              \<and> allowed (server (snd (consign L token now n h requester))) token
                   = Some \<lparr>hash = h, contact = requester, expires = now + ttl (server n)\<rparr>)"
  using assms by (simp add: consign_def Let_def accept_def)

theorem consign_expired_witness:
  "fst (consign sample_lib ''t0'' 1001 sample_node ''6869'' renter) = Next (Error ''Contract has expired'')
   \<and> snd (consign sample_lib ''t0'' 1001 sample_node ''6869'' renter) = sample_node
   \<and> fst (consign sample_lib ''t0'' 1000 sample_node ''6869'' renter) = Send [Str ''t0'']
   \<and> allowed (server (snd (consign sample_lib ''t0'' 1000 sample_node ''6869'' renter))) ''t0''
       = Some \<lparr>hash = ''6869'', contact = renter, expires = 1801000\<rparr>"
proof -
  have local: "store_get (contracts sample_node) (contract_key ''6869'' (xpub (snd renter)))
                 = Inr (Descriptor sample_contract)"
    by (simp add: sample_defs)
  have e: "store_end (Contract_from sample_lib (Descriptor sample_contract)) = 1000"
    by (simp add: sample_defs)
  have t: "ttl (server sample_node) = 1800000"
    by (simp add: sample_defs)
  from consign_expired [OF local, of sample_lib "''t0''" 1001]
       consign_expired [OF local, of sample_lib "''t0''" 1000]
  show ?thesis by (simp add: e t accept_def)
qed

subsection \<open>RETRIEVE\<close>

text \<open>
  C6. A RETRIEVE request for hash \<open>H\<close> from a contact with extended key \<open>X\<close> fails with
  \<open>Shard not found\<close> exactly when the contract under \<open>H:X\<close> exists and \<open>shards.exists(H)\<close>
  answers false; when the contract exists and the shard exists, the handler replies with
  the minted token, accepted for \<open>H\<close> and the contact.
\<close>

theorem retrieve_shard_not_found:
  "(fst (retrieve token now n h requester) = Next (Error ''Shard not found'')
      \<longleftrightarrow> (\<exists>desc. store_get (contracts n) (contract_key h (xpub (snd requester))) = Inr desc)
          \<and> shard_exists (node_shards n) h = Inr False)
   \<and> ((\<exists>desc. store_get (contracts n) (contract_key h (xpub (snd requester))) = Inr desc)
        \<and> shard_exists (node_shards n) h = Inr True
      \<longrightarrow> retrieve token now n h requester
            = (Send [Str token], n\<lparr>server := accept now token h requester (server n)\<rparr>)
        \<and> allowed (server (snd (retrieve token now n h requester))) token
            = Some \<lparr>hash = h, contact = requester, expires = now + ttl (server n)\<rparr>)"
  by (auto simp: retrieve_def accept_def store_get_def split: sum.splits option.splits)

theorem retrieve_shard_not_found_witness:
  "fst (retrieve ''t0'' 5 (sample_node\<lparr>node_shards := (node_shards sample_node)\<lparr>shard_exists := (\<lambda>h. Inr False)\<rparr>\<rparr>) ''6869'' renter)
     = Next (Error ''Shard not found'')
   \<and> fst (retrieve ''t0'' 5 sample_node ''dead'' renter) \<noteq> Next (Error ''Shard not found'')
   \<and> retrieve ''t0'' 5 sample_node ''6869'' renter
       = (Send [Str ''t0''], sample_node\<lparr>server := accept 5 ''t0'' ''6869'' renter (server sample_node)\<rparr>)"
proof -
  let ?n = "sample_node\<lparr>node_shards := (node_shards sample_node)\<lparr>shard_exists := (\<lambda>h. Inr False)\<rparr>\<rparr>"
  have a: "(\<exists>desc. store_get (contracts ?n) (contract_key ''6869'' (xpub (snd renter))) = Inr desc)
           \<and> shard_exists (node_shards ?n) ''6869'' = Inr False"
    by (simp add: sample_defs)
  have b: "\<not> (\<exists>desc. store_get (contracts sample_node) (contract_key ''dead'' (xpub (snd renter))) = Inr desc)"
    by (simp add: sample_defs)
  have c: "(\<exists>desc. store_get (contracts sample_node) (contract_key ''6869'' (xpub (snd renter))) = Inr desc)
           \<and> shard_exists (node_shards sample_node) ''6869'' = Inr True"
    by (simp add: sample_defs)
  from retrieve_shard_not_found [of "''t0''" 5 ?n "''6869''" renter] a
  have 1: "fst (retrieve ''t0'' 5 ?n ''6869'' renter) = Next (Error ''Shard not found'')"
    by blast
  from retrieve_shard_not_found [of "''t0''" 5 sample_node "''dead''" renter] b
  have 2: "fst (retrieve ''t0'' 5 sample_node ''dead'' renter) \<noteq> Next (Error ''Shard not found'')"
    by blast
  from retrieve_shard_not_found [of "''t0''" 5 sample_node "''6869''" renter] c
  have 3: "retrieve ''t0'' 5 sample_node ''6869'' renter
       = (Send [Str ''t0''], sample_node\<lparr>server := accept 5 ''t0'' ''6869'' renter (server sample_node)\<rparr>)"
    by blast
  from 1 2 3 show ?thesis by blast
qed

subsection \<open>CLAIM\<close>

text \<open>
  C7. A CLAIM request is rejected with \<open>Currently rejecting claims\<close> unless the
  \<open>renter_hd_key\<close> of the descriptor is in the claims list of the node or the list contains
  \<open>*\<close> (and only then is it rejected with this error); a rejected claim leaves the node as
  it was: nothing is persisted and no token is accepted.
\<close>

theorem claim_rejecting:
  "(fst (claim L token now n params requester) = Next (Error ''Currently rejecting claims'')
     \<longleftrightarrow> renter_hd_key (Contract_from L (first_param params)) \<notin> set (claims n) \<and> ''*'' \<notin> set (claims n))
   \<and> (renter_hd_key (Contract_from L (first_param params)) \<notin> set (claims n) \<and> ''*'' \<notin> set (claims n)
        \<longrightarrow> snd (claim L token now n params requester) = n)"
  by (auto simp: claim_def Let_def store_put_def split: sum.splits option.splits)

theorem claim_rejecting_witness:
  "claim sample_lib ''t0'' 5 (sample_node\<lparr>claims := []\<rparr>) [Descriptor sample_contract] renter
     = (Next (Error ''Currently rejecting claims''), sample_node\<lparr>claims := []\<rparr>)
   \<and> fst (claim sample_lib ''t0'' 5 sample_node [Descriptor sample_contract] renter)
       \<noteq> Next (Error ''Currently rejecting claims'')
   \<and> fst (claim sample_lib ''t0'' 5 (sample_node\<lparr>claims := [''*'']\<rparr>) [Descriptor sample_contract] renter)
       \<noteq> Next (Error ''Currently rejecting claims'')"
proof -
  have x: "renter_hd_key (Contract_from sample_lib (first_param [Descriptor sample_contract])) = ''R''"
    by (simp add: sample_defs)
  have c: "claims sample_node = [''R'']"
    by (simp add: sample_defs)
  from claim_rejecting [of sample_lib "''t0''" 5 "sample_node\<lparr>claims := []\<rparr>" "[Descriptor sample_contract]" renter]
       claim_rejecting [of sample_lib "''t0''" 5 sample_node "[Descriptor sample_contract]" renter]
       claim_rejecting [of sample_lib "''t0''" 5 "sample_node\<lparr>claims := [''*'']\<rparr>" "[Descriptor sample_contract]" renter]
  show ?thesis by (simp add: x c prod_eq_iff)
qed

text \<open>
  C10. \<open>publishCapacityAnnouncement\<close> with \<open>data.available \<le> 0\<close> replaces the claims list
  by the empty list, so that a CLAIM handled afterwards is rejected with
  \<open>Currently rejecting claims\<close>; with \<open>data.available > 0\<close> the list stays as it is.
\<close>

theorem publishCapacityAnnouncement_claims:
  "claims (fst (publishCapacityAnnouncement n code data))
     = (if available data \<le> 0 then [] else claims n)
   \<and> (available data \<le> 0 \<longrightarrow>
        claim L token now (fst (publishCapacityAnnouncement n code data)) params requester
          = (Next (Error ''Currently rejecting claims''), fst (publishCapacityAnnouncement n code data)))"
  by (auto simp: publishCapacityAnnouncement_def claim_def Let_def)

theorem publishCapacityAnnouncement_claims_witness:
  "claims (fst (publishCapacityAnnouncement sample_node ''0a'' \<lparr>available = 0, allocated = 10\<rparr>)) = []
   \<and> fst (claim sample_lib ''t0'' 5
            (fst (publishCapacityAnnouncement sample_node ''0a'' \<lparr>available = 0, allocated = 10\<rparr>))
            [Descriptor sample_contract] renter)
       = Next (Error ''Currently rejecting claims'')
   \<and> claims (fst (publishCapacityAnnouncement sample_node ''0a'' \<lparr>available = 7, allocated = 3\<rparr>)) = [''R'']"
proof -
  have c: "claims sample_node = [''R'']"
    by (simp add: sample_defs)
  from publishCapacityAnnouncement_claims
         [of sample_node "''0a''" "\<lparr>available = 0, allocated = 10\<rparr>" sample_lib "''t0''" 5
             "[Descriptor sample_contract]" renter]
       publishCapacityAnnouncement_claims
         [of sample_node "''0a''" "\<lparr>available = 7, allocated = 3\<rparr>" sample_lib "''t0''" 5
             "[Descriptor sample_contract]" renter]
  show ?thesis by (simp add: c)
qed

subsection \<open>OFFER\<close>

text \<open>
  C8. The handler takes the two checks in the order of the specification, validity, then
  the offer stream. A descriptor that is not both valid and complete is rejected with
  \<open>Invalid shard descriptor\<close>; a descriptor that passed this check and whose \<open>data_hash\<close>
  has no offer stream is rejected with \<open>Offers for descriptor are closed\<close>; the offer is
  queued on the stream in the remaining case, and only then.
\<close>

theorem offer_rejections:
  "(\<not> (isValid L (Contract_from L (first_param params)) \<and> isComplete L (Contract_from L (first_param params)))
      \<longrightarrow> offer L n params requester = (Next (Error ''Invalid shard descriptor''), n))
   \<and> (isValid L (Contract_from L (first_param params)) \<and> isComplete L (Contract_from L (first_param params))
        \<and> offers n (data_hash (Contract_from L (first_param params))) = None
      \<longrightarrow> offer L n params requester = (Next (Error ''Offers for descriptor are closed''), n))
   \<and> (fst (offer L n params requester) = Queued
      \<longleftrightarrow> isValid L (Contract_from L (first_param params)) \<and> isComplete L (Contract_from L (first_param params))
          \<and> offers n (data_hash (Contract_from L (first_param params))) \<noteq> None)
   \<and> (\<forall>os. isValid L (Contract_from L (first_param params)) \<and> isComplete L (Contract_from L (first_param params))
        \<and> offers n (data_hash (Contract_from L (first_param params))) = Some os
      \<longrightarrow> offer L n params requester
            = (Queued, n\<lparr>offers := (offers n)(data_hash (Contract_from L (first_param params))
                                      \<mapsto> queue requester (Contract_from L (first_param params)) os)\<rparr>))"
  by (auto simp: offer_def Let_def split: option.splits)

theorem offer_rejections_witness:
  "offer sample_lib sample_node [Str ''nonsense''] renter
     = (Next (Error ''Invalid shard descriptor''), sample_node)
   \<and> offer sample_lib sample_node [Descriptor sample_contract] renter
     = (Next (Error ''Offers for descriptor are closed''), sample_node)
   \<and> fst (offer sample_lib (sample_node\<lparr>offers := [''6869'' \<mapsto> \<lparr>queued = []\<rparr>]\<rparr>)
            [Descriptor sample_contract] renter) = Queued
   \<and> offers (snd (offer sample_lib (sample_node\<lparr>offers := [''6869'' \<mapsto> \<lparr>queued = []\<rparr>]\<rparr>)
            [Descriptor sample_contract] renter)) ''6869''
       = Some \<lparr>queued = [(renter, sample_contract)]\<rparr>"
proof -
  let ?open = "sample_node\<lparr>offers := [''6869'' \<mapsto> \<lparr>queued = []\<rparr>]\<rparr>"
  have bad: "\<not> (isValid sample_lib (Contract_from sample_lib (first_param [Str ''nonsense'']))
             \<and> isComplete sample_lib (Contract_from sample_lib (first_param [Str ''nonsense''])))"
    by (simp add: sample_defs)
  have good: "isValid sample_lib (Contract_from sample_lib (first_param [Descriptor sample_contract]))
             \<and> isComplete sample_lib (Contract_from sample_lib (first_param [Descriptor sample_contract]))"
    by (simp add: sample_defs)
  have c: "Contract_from sample_lib (first_param [Descriptor sample_contract]) = sample_contract"
    by (simp add: sample_defs)
  have h: "data_hash sample_contract = ''6869''"
    by (simp add: sample_defs)
  have closed: "offers sample_node ''6869'' = None"
    by (simp add: sample_defs)
  have opened: "offers ?open ''6869'' = Some \<lparr>queued = []\<rparr>"
    by simp
  from offer_rejections [of sample_lib "[Str ''nonsense'']" sample_node renter] bad
  have 1: "offer sample_lib sample_node [Str ''nonsense''] renter
     = (Next (Error ''Invalid shard descriptor''), sample_node)"
    by blast
  from offer_rejections [of sample_lib "[Descriptor sample_contract]" sample_node renter] good closed
  have 2: "offer sample_lib sample_node [Descriptor sample_contract] renter
     = (Next (Error ''Offers for descriptor are closed''), sample_node)"
    by (simp add: c h)
  from offer_rejections [of sample_lib "[Descriptor sample_contract]" ?open renter] good opened
  have 3: "offer sample_lib ?open [Descriptor sample_contract] renter
     = (Queued, ?open\<lparr>offers := (offers ?open)(''6869'' \<mapsto> queue renter sample_contract \<lparr>queued = []\<rparr>)\<rparr>)"
    by (simp add: c h)
  from 1 2 3 show ?thesis by (simp add: queue_def)
qed

subsection \<open>Upload\<close>


lemma response_respond:
  "response (respond err code run) = (if response run = None then Some (err, code) else response run)"
  by (simp add: respond_def)

lemma srv_respond: "srv (respond err code run) = srv run"
  by (simp add: respond_def)


lemma receivedBytes_respond: "receivedBytes (respond err code run) = receivedBytes run"
  by (simp add: respond_def)

lemma srv_on_data: "srv (on_data h sz run chunk) = srv run"
  by (simp add: on_data_def Let_def srv_respond)


lemma receivedBytes_on_data: "receivedBytes (on_data h sz run chunk) = receivedBytes run + length chunk"
  by (simp add: on_data_def Let_def receivedBytes_respond)

lemma response_on_data:
  "response (on_data h sz run chunk) =
     (if response run = None \<and> receivedBytes run + length chunk > sz
      then Some (Some (Error ''Shard exceeds size defined in contract''), 400)
      else response run)"
  by (simp add: on_data_def Let_def response_respond)

lemma srv_foldl: "srv (foldl (on_data h sz) run chunks) = srv run"
  by (induction chunks arbitrary: run) (simp_all add: srv_on_data)


lemma receivedBytes_foldl:
  "receivedBytes (foldl (on_data h sz) run chunks) = receivedBytes run + length (concat chunks)"
  by (induction chunks arbitrary: run) (simp_all add: receivedBytes_on_data)

lemma response_foldl_kept:
  "response run \<noteq> None \<Longrightarrow> response (foldl (on_data h sz) run chunks) = response run"
  by (induction chunks arbitrary: run) (simp_all add: response_on_data)








lemma events_respond:
  "events (respond err code run) =
     (if response run = None then events run @ [Respond err code] else events run)"
  by (simp add: respond_def)

lemma statusCode_on_end:
  "statusCode (on_end C tok h c run) =
     (if response run = None
      then (if toString_hex (rmd160 C (sha256 C (hasher run))) \<noteq> h then Some 400 else Some 200)
      else statusCode run)"
  by (simp add: on_end_def statusCode_def respond_def)

lemma statusCode_foldl:
  "response run = None \<Longrightarrow>
   response (foldl (on_data h sz) run chunks) = None
   \<or> statusCode (foldl (on_data h sz) run chunks) = Some 400"
proof (induction chunks arbitrary: run)
  case Nil
  then show ?case by (simp add: statusCode_def)
next
  case (Cons c cs)
  show ?case
  proof (cases "response (on_data h sz run c) = None")
    case True
    from Cons.IH [OF this] show ?thesis by simp
  next
    case False
    then have "response (foldl (on_data h sz) (on_data h sz run c) cs) = response (on_data h sz run c)"
      by (rule response_foldl_kept)
    with False Cons.prems show ?thesis
      by (auto simp: statusCode_def response_on_data split: if_splits)
  qed
qed


lemma upload_cases:
  obtains (unauthorized) err where "authorize s now (query_token req) (params_hash req) = Inl err"
      and "upload C now s req = respond (Some err) 401 (transfer_start s)"
    | (missing) e err where "authorize s now (query_token req) (params_hash req) = Inr e"
      and "upload C now s req = respond (Some err) 404 (transfer_start s)"
    | (unwritable) e err where "authorize s now (query_token req) (params_hash req) = Inr e"
      and "upload C now s req = respond (Some err) 500 (transfer_start s)"
    | (streamed) e c where "authorize s now (query_token req) (params_hash req) = Inr e"
      and "upload C now s req =
             on_end C (query_token req) (hash e) c
               (foldl (on_data (hash e) (shardSize c)) (transfer_start s) (body req))"
proof (cases "authorize s now (query_token req) (params_hash req)")
  case (Inl err)
  then show ?thesis by (intro unauthorized [of err]) (simp_all add: upload_def)
next
  case (Inr e)
  show ?thesis
  proof (cases "findOne s (hash e)")
    case (Inl msg)
    with Inr show ?thesis by (intro missing [of e "Upstream msg"]) (simp_all add: upload_def)
  next
    case found: (Inr doc)
    show ?thesis
    proof (cases doc)
      case None
      with Inr found show ?thesis
        by (intro missing [of e "Error ''Not found''"]) (simp_all add: upload_def)
    next
      case (Some c)
      show ?thesis
      proof (cases "createWriteStream s (hash e)")
        case None
        with Inr found Some show ?thesis by (intro streamed [of e c]) (simp_all add: upload_def Let_def)
      next
        case (Some msg)
        with Inr found \<open>doc = Some c\<close> show ?thesis
          by (intro unwritable [of e "Upstream msg"]) (simp_all add: upload_def)
      qed
    qed
  qed
qed

lemma respond_start:
  "statusCode (respond err code (transfer_start s)) = Some code"
  "before_respond (events (respond err code (transfer_start s))) = []"
  by (simp_all add: respond_def transfer_start_def statusCode_def before_respond_def is_Respond_def)











lemmas run_defs =
  upload_def download_def authorize_def accept_def reject_def respond_def on_data_def on_end_def
  transfer_start_def statusCode_def before_respond_def is_Respond_def toString_hex_def hexdigit_def
  rmd160_def sha256_def rmd160sha256_def Let_def



subsection \<open>Tokens\<close>

lemma upload_200_srv:
  assumes "statusCode (upload C now s req) = Some 200" and "query_token req = Some t"
  shows "srv (upload C now s req) = reject t s"
proof (cases rule: upload_cases [of s now req C])
  case (streamed e c)
  let ?run = "foldl (on_data (hash e) (shardSize c)) (transfer_start s) (body req)"
  have none: "response (transfer_start s) = None" by (simp add: transfer_start_def)
  from assms(1) have "response ?run = None"
    unfolding streamed(2) statusCode_on_end using statusCode_foldl [OF none, of "hash e" "shardSize c" "body req"]
    by (auto split: if_splits)
  with assms show ?thesis
    unfolding streamed(2)
    by (auto simp: on_end_def statusCode_def respond_def srv_foldl transfer_start_def split: if_splits)
qed (use assms in \<open>simp_all add: respond_start\<close>)

lemma unknown_token_401:
  assumes "allowed s t = None" and "query_token req = Some t"
  shows "statusCode (upload C now s req) = Some 401" and "statusCode (download now s req) = Some 401"
  using assms
  by (simp_all add: upload_def download_def authorize_def respond_start)

lemma expired_token_401:
  assumes "allowed s t = Some e" and "expires e \<le> now" and "query_token req = Some t"
  shows "statusCode (upload C now s req) = Some 401" and "statusCode (download now s req) = Some 401"
  using assms
  by (simp_all add: upload_def download_def authorize_def respond_start)

lemma download_completed_srv:
  assumes "Emit_shardDownloaded h \<in> set (events (download now s req))" and "query_token req = Some t"
  shows "srv (download now s req) = reject t s"
  using assms
  by (auto simp: download_def Let_def respond_def transfer_start_def split: sum.splits read_stream.splits)

lemma allowed_reject: "allowed (reject t s) t = None"
  by (simp add: reject_def)

text \<open>
  C9. A token is used once. After an upload answered with 200, and after a download whose
  stream has ended (\<open>shardDownloaded\<close> was emitted), the token of the request is no longer
  in the token table, and every later upload or download that presents it is answered
  with 401. A token whose expiry time has passed is not authorized, for any hash, while
  its entry is still in the table: uploads and downloads that present it get 401.
\<close>

theorem token_single_use:
  "(statusCode (upload C now s req) = Some 200 \<and> query_token req = Some t \<longrightarrow>
       allowed (srv (upload C now s req)) t = None
     \<and> (query_token req' = Some t \<longrightarrow>
           statusCode (upload C' now' (srv (upload C now s req)) req') = Some 401
         \<and> statusCode (download now' (srv (upload C now s req)) req') = Some 401))
   \<and> (Emit_shardDownloaded h \<in> set (events (download now s req)) \<and> query_token req = Some t \<longrightarrow>
       allowed (srv (download now s req)) t = None
     \<and> (query_token req' = Some t \<longrightarrow>
           statusCode (upload C' now' (srv (download now s req)) req') = Some 401
         \<and> statusCode (download now' (srv (download now s req)) req') = Some 401))
   \<and> (allowed s t = Some e \<and> expires e \<le> now \<longrightarrow>
       (\<exists>err. authorize s now (Some t) h = Inl err)
     \<and> (query_token req' = Some t \<longrightarrow>
           statusCode (upload C' now s req') = Some 401
         \<and> statusCode (download now s req') = Some 401))"
proof (intro conjI impI; (elim conjE)?)
  assume "statusCode (upload C now s req) = Some 200" and "query_token req = Some t"
  then have "srv (upload C now s req) = reject t s" by (rule upload_200_srv)
  then show "allowed (srv (upload C now s req)) t = None" by (simp add: allowed_reject)
next
  assume "statusCode (upload C now s req) = Some 200" and "query_token req = Some t"
    and r: "query_token req' = Some t"
  then have "srv (upload C now s req) = reject t s" by (simp add: upload_200_srv)
  then have "allowed (srv (upload C now s req)) t = None" by (simp add: allowed_reject)
  from unknown_token_401 [OF this r]
  show "statusCode (upload C' now' (srv (upload C now s req)) req') = Some 401"
    and "statusCode (download now' (srv (upload C now s req)) req') = Some 401"
    by simp_all
next
  assume "Emit_shardDownloaded h \<in> set (events (download now s req))" and "query_token req = Some t"
  then have "srv (download now s req) = reject t s" by (rule download_completed_srv)
  then show "allowed (srv (download now s req)) t = None" by (simp add: allowed_reject)
next
  assume "Emit_shardDownloaded h \<in> set (events (download now s req))" and "query_token req = Some t"
    and r: "query_token req' = Some t"
  then have "srv (download now s req) = reject t s" by (simp add: download_completed_srv)
  then have "allowed (srv (download now s req)) t = None" by (simp add: allowed_reject)
  from unknown_token_401 [OF this r]
  show "statusCode (upload C' now' (srv (download now s req)) req') = Some 401"
    and "statusCode (download now' (srv (download now s req)) req') = Some 401"
    by simp_all
next
  assume "allowed s t = Some e" and "expires e \<le> now"
  then show "\<exists>err. authorize s now (Some t) h = Inl err"
    by (simp add: authorize_def)
next
  assume "allowed s t = Some e" and "expires e \<le> now" and "query_token req' = Some t"
  then show "statusCode (upload C' now s req') = Some 401"
    and "statusCode (download now s req') = Some 401"
    by (simp_all add: expired_token_401)
qed


theorem token_single_use_witness:
  "statusCode (upload sample_crypto 5 (accept 0 ''t0'' ''6869'' renter sample_server)
     \<lparr>query_token = Some ''t0'', params_hash = ''6869'', body = [[0x68], [0x69]]\<rparr>) = Some 200
   \<and> statusCode (upload sample_crypto 6
       (srv (upload sample_crypto 5 (accept 0 ''t0'' ''6869'' renter sample_server)
          \<lparr>query_token = Some ''t0'', params_hash = ''6869'', body = [[0x68], [0x69]]\<rparr>))
       \<lparr>query_token = Some ''t0'', params_hash = ''6869'', body = [[0x68], [0x69]]\<rparr>) = Some 401
   \<and> Emit_shardDownloaded ''6869'' \<in> set (events (download 5 (accept 0 ''t0'' ''6869'' renter sample_server)
       \<lparr>query_token = Some ''t0'', params_hash = ''6869'', body = []\<rparr>))
   \<and> statusCode (download 6
       (srv (download 5 (accept 0 ''t0'' ''6869'' renter sample_server)
          \<lparr>query_token = Some ''t0'', params_hash = ''6869'', body = []\<rparr>))
       \<lparr>query_token = Some ''t0'', params_hash = ''6869'', body = []\<rparr>) = Some 401
   \<and> allowed (accept 0 ''t0'' ''6869'' renter sample_server) ''t0''
       = Some \<lparr>hash = ''6869'', contact = renter, expires = 1800000\<rparr>
   \<and> statusCode (download 1800000 (accept 0 ''t0'' ''6869'' renter sample_server)
       \<lparr>query_token = Some ''t0'', params_hash = ''6869'', body = []\<rparr>) = Some 401"
proof -
  let ?s = "accept 0 ''t0'' ''6869'' renter sample_server"
  let ?post = "\<lparr>query_token = Some ''t0'', params_hash = ''6869'', body = [[0x68], [0x69 :: 8 word]]\<rparr>"
  let ?get = "\<lparr>query_token = Some ''t0'', params_hash = ''6869'', body = ([] :: bytes list)\<rparr>"
  let ?e = "\<lparr>hash = ''6869'', contact = renter, expires = 1800000\<rparr>"
  have up: "statusCode (upload sample_crypto 5 ?s ?post) = Some 200 \<and> query_token ?post = Some ''t0''"
    by (simp add: run_defs sample_defs)
  have down: "Emit_shardDownloaded ''6869'' \<in> set (events (download 5 ?s ?get))
              \<and> query_token ?get = Some ''t0''"
    by (simp add: run_defs sample_defs)
  have old: "allowed ?s ''t0'' = Some ?e \<and> expires ?e \<le> 1800000"
    by (simp add: run_defs sample_defs)
  have q: "query_token ?post = Some ''t0''" "query_token ?get = Some ''t0''"
    by simp_all
  note use = token_single_use [of sample_crypto _ ?s _ "''t0''" _ sample_crypto 6 "''6869''" ?e]
  from use [of 5 ?post ?post] up q
  have 1: "statusCode (upload sample_crypto 6 (srv (upload sample_crypto 5 ?s ?post)) ?post) = Some 401"
    by blast
  from use [of 5 ?get ?get] down q
  have 2: "statusCode (download 6 (srv (download 5 ?s ?get)) ?get) = Some 401"
    by blast
  from use [of 1800000 ?get ?get] old q
  have 3: "statusCode (download 1800000 ?s ?get) = Some 401"
    by blast
  from up down old 1 2 3 show ?thesis by blast
qed

subsection \<open>RENEW\<close>

lemma find_Some_first:
  "find P xs = Some x \<longleftrightarrow> (\<exists>pre post. xs = pre @ x # post \<and> P x \<and> (\<forall>y \<in> set pre. \<not> P y))"
proof (induction xs)
  case Nil
  then show ?case by simp
next
  case (Cons a xs)
  show ?case
  proof (cases "P a")
    case True
    have "(\<exists>pre post. a # xs = pre @ x # post \<and> P x \<and> (\<forall>y \<in> set pre. \<not> P y)) \<longleftrightarrow> a = x"
    proof
      assume "\<exists>pre post. a # xs = pre @ x # post \<and> P x \<and> (\<forall>y \<in> set pre. \<not> P y)"
      then obtain pre post where d: "a # xs = pre @ x # post" and n: "\<forall>y \<in> set pre. \<not> P y"
        by blast
      show "a = x"
      proof (cases pre)
        case Nil
        with d show ?thesis by simp
      next
        case (Cons b bs)
        with d have "a = b" by simp
        with Cons n True show ?thesis by simp
      qed
    next
      assume "a = x"
      with True have "a # xs = [] @ x # xs \<and> P x \<and> (\<forall>y \<in> set []. \<not> P y)" by simp
      then show "\<exists>pre post. a # xs = pre @ x # post \<and> P x \<and> (\<forall>y \<in> set pre. \<not> P y)"
        by blast
    qed
    with True show ?thesis by auto
  next
    case False
    have "(\<exists>pre post. a # xs = pre @ x # post \<and> P x \<and> (\<forall>y \<in> set pre. \<not> P y))
          \<longleftrightarrow> (\<exists>pre post. xs = pre @ x # post \<and> P x \<and> (\<forall>y \<in> set pre. \<not> P y))"
    proof
      assume "\<exists>pre post. a # xs = pre @ x # post \<and> P x \<and> (\<forall>y \<in> set pre. \<not> P y)"
      then obtain pre post where d: "a # xs = pre @ x # post" and p: "P x"
        and n: "\<forall>y \<in> set pre. \<not> P y"
        by blast
      show "\<exists>pre post. xs = pre @ x # post \<and> P x \<and> (\<forall>y \<in> set pre. \<not> P y)"
      proof (cases pre)
        case Nil
        with d p False show ?thesis by simp
      next
        case (Cons b bs)
        with d n p have "xs = bs @ x # post \<and> P x \<and> (\<forall>y \<in> set bs. \<not> P y)" by simp
        then show ?thesis by blast
      qed
    next
      assume "\<exists>pre post. xs = pre @ x # post \<and> P x \<and> (\<forall>y \<in> set pre. \<not> P y)"
      then obtain pre post where "xs = pre @ x # post" and "P x" and "\<forall>y \<in> set pre. \<not> P y"
        by blast
      with False have "a # xs = (a # pre) @ x # post \<and> P x \<and> (\<forall>y \<in> set (a # pre). \<not> P y)"
        by simp
      then show "\<exists>pre post. a # xs = pre @ x # post \<and> P x \<and> (\<forall>y \<in> set pre. \<not> P y)"
        by blast
    qed
    with False Cons.IH show ?thesis by simp
  qed
qed

lemma renew_outcome:
  assumes "renewal = Contract_from L (first_param params)"
    and "key = contract_key (data_hash renewal) (xpub (snd requester))"
    and "isValid L renewal \<and> isComplete L renewal"
    and "store_get (contracts n) key = Inr desc"
    and "countersigned = sign L Farmer (privateKey n) renewal"
  shows "renew L n params requester =
     (case find (\<lambda>prop. prop \<notin> set allowed_fields) (diff L (Contract_from L desc) renewal) of
        Some prop \<Rightarrow> (Next (Error (''Rejecting renewal of '' @ prop)), n)
      | None \<Rightarrow>
          (case put_fault (contracts n) key of
             Some msg \<Rightarrow> (Next (Upstream msg), n)
           | None \<Rightarrow> (Send [toObject countersigned],
                       n\<lparr>contracts := (contracts n)\<lparr>entries := (entries (contracts n))(key \<mapsto> toObject countersigned)\<rparr>\<rparr>)))"
  using assms by (simp add: renew_def Let_def store_put_def split: option.splits)

text \<open>
  C3, as the handler has it. For a RENEW request whose renewal is valid and complete and
  whose local contract exists: the handler rejects with \<open>Rejecting renewal of X\<close> exactly
  when \<open>X\<close> is the first field of the difference, in its order, that is outside
  \<open>renter_id\<close>, \<open>renter_hd_key\<close>, \<open>renter_signature\<close>, \<open>store_begin\<close>, \<open>store_end\<close>,
  \<open>audit_leaves\<close>; it rejects with such an error exactly when some differing field is
  outside that set. Otherwise it signs as farmer and writes the signed renewal to the
  store: when the write succeeds the renewal is persisted and sent as the reply, and when
  the write fails the error of the store is returned and nothing is changed.
\<close>

theorem renew_rejecting:
  assumes "renewal = Contract_from L (first_param params)"
    and "key = contract_key (data_hash renewal) (xpub (snd requester))"
    and "isValid L renewal \<and> isComplete L renewal"
    and "store_get (contracts n) key = Inr desc"
    and "difference = diff L (Contract_from L desc) renewal"
    and "countersigned = sign L Farmer (privateKey n) renewal"
  shows "(fst (renew L n params requester) = Next (Error (''Rejecting renewal of '' @ X))
            \<longleftrightarrow> (\<exists>pre post. difference = pre @ X # post \<and> X \<notin> set allowed_fields
                    \<and> set pre \<subseteq> set allowed_fields))
       \<and> ((\<exists>Y. fst (renew L n params requester) = Next (Error (''Rejecting renewal of '' @ Y)))
            \<longleftrightarrow> \<not> set difference \<subseteq> set allowed_fields)
       \<and> (set difference \<subseteq> set allowed_fields \<and> put_fault (contracts n) key = None
            \<longrightarrow> renew L n params requester
                  = (Send [toObject countersigned],
                     n\<lparr>contracts := (contracts n)\<lparr>entries := (entries (contracts n))(key \<mapsto> toObject countersigned)\<rparr>\<rparr>))
       \<and> (\<forall>msg. set difference \<subseteq> set allowed_fields \<and> put_fault (contracts n) key = Some msg
            \<longrightarrow> renew L n params requester = (Next (Upstream msg), n))"
proof -
  let ?bad = "\<lambda>prop. prop \<notin> set allowed_fields"
  note out = renew_outcome [OF assms(1-4) assms(6), folded assms(5)]
  have none: "find ?bad difference = None \<longleftrightarrow> set difference \<subseteq> set allowed_fields"
    by (auto simp: find_None_iff)
  have first: "find ?bad difference = Some X
        \<longleftrightarrow> (\<exists>pre post. difference = pre @ X # post \<and> X \<notin> set allowed_fields
                    \<and> set pre \<subseteq> set allowed_fields)"
    unfolding find_Some_first by auto
  have 1: "fst (renew L n params requester) = Next (Error (''Rejecting renewal of '' @ X))
            \<longleftrightarrow> find ?bad difference = Some X"
    unfolding out by (auto split: option.splits)
  have 2: "(\<exists>Y. fst (renew L n params requester) = Next (Error (''Rejecting renewal of '' @ Y)))
            \<longleftrightarrow> find ?bad difference \<noteq> None"
    unfolding out by (auto split: option.splits)
  have 3: "find ?bad difference = None \<and> put_fault (contracts n) key = None
            \<longrightarrow> renew L n params requester
                  = (Send [toObject countersigned],
                     n\<lparr>contracts := (contracts n)\<lparr>entries := (entries (contracts n))(key \<mapsto> toObject countersigned)\<rparr>\<rparr>)"
    unfolding out by simp
  have 4: "\<forall>msg. find ?bad difference = None \<and> put_fault (contracts n) key = Some msg
            \<longrightarrow> renew L n params requester = (Next (Upstream msg), n)"
    unfolding out by simp
  from 1 2 3 4 show ?thesis
    unfolding none first by simp
qed


theorem renew_rejecting_witness:
  "fst (renew sample_lib sample_node
          [Descriptor (sample_contract\<lparr>renter_id := ''renter2'', farmer_hd_key := ''G'',
                                         farmer_signature := Some ''[G]'', store_end := 2000\<rparr>)] renter)
     = Next (Error ''Rejecting renewal of farmer_hd_key'')
   \<and> renew sample_lib sample_node [Descriptor (sample_contract\<lparr>store_end := 2000\<rparr>)] renter
     = (Send [Descriptor (sample_contract\<lparr>store_end := 2000\<rparr>)],
        sample_node\<lparr>contracts := (contracts sample_node)
          \<lparr>entries := (entries (contracts sample_node))
                        (''6869:R'' \<mapsto> Descriptor (sample_contract\<lparr>store_end := 2000\<rparr>))\<rparr>\<rparr>)"
proof -
  let ?bad = "sample_contract\<lparr>renter_id := ''renter2'', farmer_hd_key := ''G'',
                               farmer_signature := Some ''[G]'', store_end := 2000\<rparr>"
  let ?good = "sample_contract\<lparr>store_end := 2000\<rparr>"
  have b1: "?bad = Contract_from sample_lib (first_param [Descriptor ?bad])"
    and g1: "?good = Contract_from sample_lib (first_param [Descriptor ?good])"
    by (simp_all add: sample_defs)
  have b2: "''6869:R'' = contract_key (data_hash ?bad) (xpub (snd renter))"
    and g2: "''6869:R'' = contract_key (data_hash ?good) (xpub (snd renter))"
    by (simp_all add: sample_defs)
  have b3: "isValid sample_lib ?bad \<and> isComplete sample_lib ?bad"
    and g3: "isValid sample_lib ?good \<and> isComplete sample_lib ?good"
    by (simp_all add: sample_defs)
  have local: "store_get (contracts sample_node) ''6869:R'' = Inr (Descriptor sample_contract)"
    by (simp add: sample_defs)
  have b5: "[''renter_id'', ''farmer_hd_key'', ''farmer_signature'', ''store_end'']
              = diff sample_lib (Contract_from sample_lib (Descriptor sample_contract)) ?bad"
    and g5: "[''store_end''] = diff sample_lib (Contract_from sample_lib (Descriptor sample_contract)) ?good"
    by (simp_all add: sample_defs)
  have g6: "?good = sign sample_lib Farmer (privateKey sample_node) ?good"
    by (simp add: sample_defs)
  have first: "\<exists>pre post. [''renter_id'', ''farmer_hd_key'', ''farmer_signature'', ''store_end'']
                  = pre @ ''farmer_hd_key'' # post
                \<and> ''farmer_hd_key'' \<notin> set allowed_fields \<and> set pre \<subseteq> set allowed_fields"
  proof (intro exI conjI)
    show "[''renter_id'', ''farmer_hd_key'', ''farmer_signature'', ''store_end'']
            = [''renter_id''] @ ''farmer_hd_key'' # [''farmer_signature'', ''store_end'']"
      by simp
    show "''farmer_hd_key'' \<notin> set allowed_fields" and "set [''renter_id''] \<subseteq> set allowed_fields"
      by (simp_all add: allowed_fields_def)
  qed
  have within: "set [''store_end''] \<subseteq> set allowed_fields
                \<and> put_fault (contracts sample_node) ''6869:R'' = None"
    by (simp add: allowed_fields_def sample_defs)
  from renew_rejecting [OF b1 b2 b3 local b5 refl, of "''farmer_hd_key''"] first
  have 1: "fst (renew sample_lib sample_node [Descriptor ?bad] renter)
             = Next (Error (''Rejecting renewal of '' @ ''farmer_hd_key''))"
    by blast
  from renew_rejecting [OF g1 g2 g3 local g5 g6] within
  have 2: "renew sample_lib sample_node [Descriptor ?good] renter
     = (Send [toObject ?good],
        sample_node\<lparr>contracts := (contracts sample_node)
          \<lparr>entries := (entries (contracts sample_node))(''6869:R'' \<mapsto> toObject ?good)\<rparr>\<rparr>)"
    by blast
  from 1 2 show ?thesis by (simp add: toObject_def)
qed

text \<open>
  When the store refuses the write, a renewal that differs in \<open>store_end\<close> only is neither
  rejected for a field nor persisted nor answered.
\<close>

theorem renew_unwritable_counterexample:
  "isValid sample_lib (Contract_from sample_lib (first_param [Descriptor (sample_contract\<lparr>store_end := 2000\<rparr>)]))
   \<and> isComplete sample_lib (Contract_from sample_lib (first_param [Descriptor (sample_contract\<lparr>store_end := 2000\<rparr>)]))
   \<and> store_get (contracts (sample_node\<lparr>contracts := (contracts sample_node)\<lparr>put_fault := (\<lambda>k. Some ''Failed to write'')\<rparr>\<rparr>))
        ''6869:R'' = Inr (Descriptor sample_contract)
   \<and> diff sample_lib sample_contract (sample_contract\<lparr>store_end := 2000\<rparr>) = [''store_end'']
   \<and> set [''store_end''] \<subseteq> set allowed_fields
   \<and> renew sample_lib (sample_node\<lparr>contracts := (contracts sample_node)\<lparr>put_fault := (\<lambda>k. Some ''Failed to write'')\<rparr>\<rparr>)
        [Descriptor (sample_contract\<lparr>store_end := 2000\<rparr>)] renter
       = (Next (Upstream ''Failed to write''),
          sample_node\<lparr>contracts := (contracts sample_node)\<lparr>put_fault := (\<lambda>k. Some ''Failed to write'')\<rparr>\<rparr>)"
  by (simp add: renew_def allowed_fields_def sample_defs)

subsection \<open>Client calls\<close>

text \<open>
  C4. A successful \<open>requestContractRenewal\<close> is specified to persist, under
  \<open>data_hash:xpub\<close> of the peer, the descriptor that the peer returned, the first element
  of the reply. Run on a reply that carries one valid and complete descriptor, the call
  succeeds and persists the reply array itself, which is not that descriptor and, read
  back with \<open>Contract.from\<close>, is not a valid and complete contract;
  \<open>offerShardAllocation\<close> persists the first element on the same reply.
\<close>

theorem requestContractRenewal_persists_reply_array:
  "fst (requestContractRenewal sample_lib sample_node farmer (Inr [Descriptor sample_contract]))
     = Inr sample_contract
   \<and> entries (contracts (snd (requestContractRenewal sample_lib sample_node farmer
                                (Inr [Descriptor sample_contract])))) ''6869:F''
       = Some (Array [Descriptor sample_contract])
   \<and> entries (contracts (snd (requestContractRenewal sample_lib sample_node farmer
                                (Inr [Descriptor sample_contract])))) ''6869:F''
       \<noteq> Some (Descriptor sample_contract)
   \<and> \<not> (isValid sample_lib (Contract_from sample_lib (Array [Descriptor sample_contract]))
         \<and> isComplete sample_lib (Contract_from sample_lib (Array [Descriptor sample_contract])))
   \<and> entries (contracts (snd (offerShardAllocation sample_lib sample_node farmer
                                (Inr [Descriptor sample_contract])))) ''6869:F''
       = Some (Descriptor sample_contract)"
  by (simp add: requestContractRenewal_def offerShardAllocation_def Let_def sample_defs)

end
